theory Spec2Isabelle
  imports Main
begin

section \<open>The desktop facility of the operating system\<close>

text \<open>
  \<^verbatim>\<open>dodo.py\<close> drives the virtual desktops through \<^verbatim>\<open>pyvda\<close> and \<^verbatim>\<open>win32gui\<close>. These
  libraries are outside the repository, so they are modelled as an explicit state of the
  operating system, with one field for each way a call can raise, and a log of the calls
  that were made. Every call appends itself to the log before it does anything else, so
  the log counts attempts, successful or not.

  Window handles are Python ints, with \<open>0\<close> for "no window" (\<^verbatim>\<open>if not hwnd\<close>).
\<close>

datatype call =
    Current_desktop          \<comment> \<open>\<^verbatim>\<open>pyvda.VirtualDesktop.current()\<close>\<close>
  | Go int                   \<comment> \<open>\<^verbatim>\<open>pyvda.VirtualDesktop(n)\<close> followed by \<^verbatim>\<open>.go()\<close>\<close>
  | Foreground_window        \<comment> \<open>\<^verbatim>\<open>win32gui.GetForegroundWindow()\<close>\<close>
  | App_view int             \<comment> \<open>\<^verbatim>\<open>pyvda.AppView(hwnd)\<close>\<close>
  | Move_view int int        \<comment> \<open>\<^verbatim>\<open>pyvda.VirtualDesktop(n)\<close> followed by \<^verbatim>\<open>app_view.move(...)\<close>\<close>
  | Is_pinned int            \<comment> \<open>\<^verbatim>\<open>app_view.is_pinned()\<close>\<close>
  | Pin int                  \<comment> \<open>\<^verbatim>\<open>app_view.pin()\<close>\<close>
  | Call_after_overlay int   \<comment> \<open>\<^verbatim>\<open>wx.CallAfter(self._show_desktop_overlay, n)\<close>\<close>

record os =
  os_current :: "int option"
    \<comment> \<open>the number of the live desktop; \<open>None\<close> when asking for it raises\<close>
  os_go_fails :: "int set"
    \<comment> \<open>the desktops that cannot be switched to: constructing them or \<^verbatim>\<open>go()\<close> raises\<close>
  os_foreground :: int
    \<comment> \<open>the handle of the foreground window, \<open>0\<close> when there is none\<close>
  os_no_view :: "int set"
    \<comment> \<open>the windows for which \<^verbatim>\<open>pyvda.AppView(hwnd)\<close> raises\<close>
  os_move_fails :: "int set"
    \<comment> \<open>the desktops to which moving a window raises\<close>
  os_pin_fails :: "int set"
    \<comment> \<open>the windows for which \<^verbatim>\<open>pin()\<close> raises\<close>
  os_pinned :: "int set"
    \<comment> \<open>the windows pinned to all desktops\<close>
  os_window_desktop :: "int \<rightharpoonup> int"
    \<comment> \<open>the desktop a window was last moved to\<close>
  os_calls :: "call list"
    \<comment> \<open>the calls made so far, oldest first\<close>

definition logged :: "call \<Rightarrow> os \<Rightarrow> os" where
  "logged c w = w\<lparr>os_calls := os_calls w @ [c]\<rparr>"

text \<open>
  Each primitive returns its value and the new state. A primitive that can raise returns
  \<open>None\<close> (or \<open>False\<close>, when it has no value) for the exception.
\<close>

definition vd_current :: "os \<Rightarrow> int option \<times> os" where
  "vd_current w = (os_current w, logged Current_desktop w)"

text \<open>A switch that does not raise makes \<open>n\<close> the live desktop.\<close>

definition vd_go :: "int \<Rightarrow> os \<Rightarrow> bool \<times> os" where
  "vd_go n w =
     (if n \<in> os_go_fails w then (False, logged (Go n) w)
      else (True, (logged (Go n) w)\<lparr>os_current := Some n\<rparr>))"

definition get_foreground_window :: "os \<Rightarrow> int \<times> os" where
  "get_foreground_window w = (os_foreground w, logged Foreground_window w)"

definition app_view :: "int \<Rightarrow> os \<Rightarrow> bool \<times> os" where
  "app_view hwnd w = (hwnd \<notin> os_no_view w, logged (App_view hwnd) w)"

definition view_move :: "int \<Rightarrow> int \<Rightarrow> os \<Rightarrow> bool \<times> os" where
  "view_move hwnd n w =
     (if n \<in> os_move_fails w then (False, logged (Move_view hwnd n) w)
      else (True, (logged (Move_view hwnd n) w)
                    \<lparr>os_window_desktop := (os_window_desktop w)(hwnd \<mapsto> n)\<rparr>))"

definition view_is_pinned :: "int \<Rightarrow> os \<Rightarrow> bool \<times> os" where
  "view_is_pinned hwnd w = (hwnd \<in> os_pinned w, logged (Is_pinned hwnd) w)"

definition view_pin :: "int \<Rightarrow> os \<Rightarrow> bool \<times> os" where
  "view_pin hwnd w =
     (if hwnd \<in> os_pin_fails w then (False, logged (Pin hwnd) w)
      else (True, (logged (Pin hwnd) w)\<lparr>os_pinned := insert hwnd (os_pinned w)\<rparr>))"

text \<open>
  \<^verbatim>\<open>wx.CallAfter\<close> queues the call for the event loop of the application, which exists
  whenever the accessor has a frame. It is taken not to raise; the queued calls are read
  off the log.
\<close>

definition call_after_overlay :: "int \<Rightarrow> os \<Rightarrow> os" where
  "call_after_overlay n w = logged (Call_after_overlay n) w"

section \<open>\<^verbatim>\<open>VirtualDesktopAccessor\<close>\<close>

text \<open>
  The two cached desktop numbers and the frame of the accessor. \<open>frame\<close> is the truth
  value of \<^verbatim>\<open>self.frame\<close>: it is \<^verbatim>\<open>None\<close> in command-line mode.
\<close>

record vda =
  current_desktop_number :: "int option"
  previous_desktop_number :: "int option"
  frame :: bool

text \<open>
  The methods return \<^verbatim>\<open>None\<close> and report on standard output. The model returns the branch
  that was taken, named after the line it prints; \<open>Switched\<close> is the branch of
  \<^verbatim>\<open>switch_desktop_by_number\<close> that prints nothing.
\<close>

datatype outcome =
    Invalid_desktop_number     \<comment> \<open>\<^verbatim>\<open>Invalid desktop number: ...\<close>\<close>
  | Already_on_desktop         \<comment> \<open>\<^verbatim>\<open>Already on desktop ...\<close>\<close>
  | Switched
  | Error_switching            \<comment> \<open>\<^verbatim>\<open>Error switching to desktop ...\<close>\<close>
  | No_previous_desktop        \<comment> \<open>\<^verbatim>\<open>No previous desktop recorded\<close>\<close>
  | No_active_window           \<comment> \<open>\<^verbatim>\<open>No active window found\<close>\<close>
  | Moved                      \<comment> \<open>\<^verbatim>\<open>Moved window to desktop ...\<close>\<close>
  | Error_moving               \<comment> \<open>\<^verbatim>\<open>Error moving window to desktop ...\<close>\<close>
  | Pinned                     \<comment> \<open>\<^verbatim>\<open>Pinned window to all desktops: ...\<close>\<close>
  | Already_pinned             \<comment> \<open>\<^verbatim>\<open>Window already pinned: ...\<close>\<close>
  | Error_pinning              \<comment> \<open>\<^verbatim>\<open>Error pinning window: ...\<close>\<close>

definition switch_desktop_by_number :: "vda \<Rightarrow> int \<Rightarrow> os \<Rightarrow> outcome \<times> vda \<times> os" where
  "switch_desktop_by_number self desktop_number w =
     (if desktop_number < 1 \<or> desktop_number > 10 then (Invalid_desktop_number, self, w)
      else
        (case vd_current w of
           (None, w1) \<Rightarrow> (Error_switching, self, w1)
         | (Some current_number, w1) \<Rightarrow>
             (let self1 = self\<lparr>current_desktop_number := Some current_number\<rparr> in
              if current_number = desktop_number then (Already_on_desktop, self1, w1)
              else
                (case vd_go desktop_number w1 of
                   (False, w2) \<Rightarrow> (Error_switching, self1, w2)
                 | (True, w2) \<Rightarrow>
                     (let self2 = self1\<lparr>previous_desktop_number := Some current_number,
                                        current_desktop_number := Some desktop_number\<rparr>
                      in (Switched, self2,
                          if frame self2 then call_after_overlay desktop_number w2
                          else w2))))))"

definition switch_to_previous_desktop :: "vda \<Rightarrow> os \<Rightarrow> outcome \<times> vda \<times> os" where
  "switch_to_previous_desktop self w =
     (case previous_desktop_number self of
        None \<Rightarrow> (No_previous_desktop, self, w)
      | Some target \<Rightarrow> switch_desktop_by_number self target w)"

text \<open>
  \<^verbatim>\<open>win32gui.GetWindowText\<close> is read for the log line only and is left out.
\<close>

definition move_window_to_desktop :: "vda \<Rightarrow> int \<Rightarrow> os \<Rightarrow> outcome \<times> vda \<times> os" where
  "move_window_to_desktop self desktop_number w =
     (if desktop_number < 1 \<or> desktop_number > 10 then (Invalid_desktop_number, self, w)
      else
        (case get_foreground_window w of
           (hwnd, w1) \<Rightarrow>
             if hwnd = 0 then (No_active_window, self, w1)
             else
               (case app_view hwnd w1 of
                  (False, w2) \<Rightarrow> (Error_moving, self, w2)
                | (True, w2) \<Rightarrow>
                    (case view_move hwnd desktop_number w2 of
                       (False, w3) \<Rightarrow> (Error_moving, self, w3)
                     | (True, w3) \<Rightarrow> (Moved, self, w3)))))"

definition pin_window :: "vda \<Rightarrow> os \<Rightarrow> outcome \<times> vda \<times> os" where
  "pin_window self w =
     (case get_foreground_window w of
        (hwnd, w1) \<Rightarrow>
          if hwnd = 0 then (No_active_window, self, w1)
          else
            (case app_view hwnd w1 of
               (False, w2) \<Rightarrow> (Error_pinning, self, w2)
             | (True, w2) \<Rightarrow>
                 (case view_is_pinned hwnd w2 of
                    (False, w3) \<Rightarrow>
                      (case view_pin hwnd w3 of
                         (False, w4) \<Rightarrow> (Error_pinning, self, w4)
                       | (True, w4) \<Rightarrow> (Pinned, self, w4))
                  | (True, w3) \<Rightarrow> (Already_pinned, self, w3))))"

section \<open>Monitors and overlay windows\<close>

text \<open>
  \<^verbatim>\<open>class Monitor\<close>. The field \<^verbatim>\<open>top\<close> is called \<open>top_edge\<close> here, since \<open>top\<close> is the
  greatest element of a lattice in HOL.
\<close>

record monitor =
  index :: int
  handle :: int
  left :: int
  top_edge :: int
  width :: int
  height :: int

definition right :: "monitor \<Rightarrow> int" where
  "right m = left m + width m"

definition bottom :: "monitor \<Rightarrow> int" where
  "bottom m = top_edge m + height m"

text \<open>The \<^verbatim>\<open>RECT\<close> structure that \<^verbatim>\<open>EnumDisplayMonitors\<close> hands to the callback.\<close>

record rect =
  rect_left :: int
  rect_top :: int
  rect_right :: int
  rect_bottom :: int

text \<open>
  \<^verbatim>\<open>class DesktopNumberOverlay\<close>: a window showing a desktop number at a position of the
  screen. \<open>ov_id\<close> is the identity of the window object.
\<close>

record overlay =
  ov_id :: nat
  desktop_number :: int
  ov_x :: int
  ov_y :: int

text \<open>
  The side of the windowing system that the overlays use: the monitors as
  \<^verbatim>\<open>EnumDisplayMonitors\<close> reports them (handle and rectangle), the overlay windows that are
  shown, the identity of the next window, the positions at which creating an overlay
  raises, and the windows whose \<^verbatim>\<open>Close()\<close> raises.
\<close>

record screen =
  scr_monitors :: "(int \<times> rect) list"
  scr_open :: "overlay list"
  scr_next :: nat
  scr_create_fails :: "(int \<times> int) set"
  scr_close_fails :: "nat set"

definition enum_monitors_callback :: "monitor list \<Rightarrow> int \<times> rect \<Rightarrow> monitor list" where
  "enum_monitors_callback monitors hr =
     (case hr of (hmonitor, r) \<Rightarrow>
        monitors @
        [\<lparr>index = int (length monitors), handle = hmonitor,
          left = rect_left r, top_edge = rect_top r,
          width = rect_right r - rect_left r,
          height = rect_bottom r - rect_top r\<rparr>])"

definition get_all :: "screen \<Rightarrow> monitor list" where
  "get_all scr = foldl enum_monitors_callback [] (scr_monitors scr)"

text \<open>Python's \<^verbatim>\<open>str\<close> on an int: the decimal digits, after a minus sign when negative.\<close>

definition digit_char :: "nat \<Rightarrow> char" where
  \<comment> \<open>only called with \<open>d < 10\<close>\<close>
  "digit_char d = ''0123456789'' ! d"

function str_nat :: "nat \<Rightarrow> string" where
  "str_nat n = (if n < 10 then [digit_char n]
                else str_nat (n div 10) @ [digit_char (n mod 10)])"
  by pat_completeness auto
termination
  by (relation "measure id") auto

definition str :: "int \<Rightarrow> string" where
  "str i = (if i < 0 then CHR ''-'' # str_nat (nat (- i)) else str_nat (nat i))"

text \<open>
  The text of an overlay, as \<^verbatim>\<open>__init__\<close> measures it and \<^verbatim>\<open>on_paint\<close> draws it.
\<close>

definition overlay_text :: "overlay \<Rightarrow> string" where
  "overlay_text ov = (if desktop_number ov = 10 then ''0'' else str (desktop_number ov))"

text \<open>
  \<^verbatim>\<open>DesktopNumberOverlay(desktop_number, x, y)\<close>: \<open>None\<close> when the constructor raises, else
  the new window, which is shown. Size, transparency and painting are left out.
  \<open>scr_open\<close> holds the windows that are shown. \<^verbatim>\<open>self.Show()\<close> is the last statement of
  the constructor, so a constructor that raises shows nothing; the frame that it may have
  created before it raised stays hidden and is not recorded.
\<close>

definition new_overlay :: "int \<Rightarrow> int \<Rightarrow> int \<Rightarrow> screen \<Rightarrow> overlay option \<times> screen" where
  "new_overlay n x y scr =
     (if (x, y) \<in> scr_create_fails scr then (None, scr)
      else
        (let ov = \<lparr>ov_id = scr_next scr, desktop_number = n, ov_x = x, ov_y = y\<rparr>
         in (Some ov, scr\<lparr>scr_open := scr_open scr @ [ov], scr_next := Suc (scr_next scr)\<rparr>)))"

text \<open>
  \<^verbatim>\<open>overlay.Close()\<close>: \<open>False\<close> when it raises, which is when the window is one whose
  closing fails or is not open any more.
\<close>

definition close_overlay :: "overlay \<Rightarrow> screen \<Rightarrow> bool \<times> screen" where
  "close_overlay ov scr =
     (if ov_id ov \<in> scr_close_fails scr \<or> ov_id ov \<notin> ov_id ` set (scr_open scr)
      then (False, scr)
      else (True, scr\<lparr>scr_open := filter (\<lambda>v. ov_id v \<noteq> ov_id ov) (scr_open scr)\<rparr>))"

section \<open>\<^verbatim>\<open>DesktopNumberOverlayManager\<close>\<close>

record timer =
  milliseconds :: int
  one_shot :: bool

record manager =
  overlays :: "overlay list"
  timer :: "timer option"

text \<open>
  The loop of \<^verbatim>\<open>__init__\<close> over the monitors, with \<^verbatim>\<open>self.overlays\<close> as the accumulator.
  The loop has no handler: an exception of the constructor leaves it, which is \<open>None\<close>.
\<close>

fun create_overlays ::
  "int \<Rightarrow> monitor list \<Rightarrow> overlay list \<Rightarrow> screen \<Rightarrow> overlay list option \<times> screen" where
  "create_overlays n [] acc scr = (Some acc, scr)"
| "create_overlays n (m # ms) acc scr =
     (case new_overlay n (left m + 20) (top_edge m + 20) scr of
        (None, scr1) \<Rightarrow> (None, scr1)
      | (Some ov, scr1) \<Rightarrow> create_overlays n ms (acc @ [ov]) scr1)"

text \<open>\<^verbatim>\<open>DesktopNumberOverlayManager(desktop_number)\<close>; \<open>None\<close> when it raises.\<close>

definition manager_init :: "int \<Rightarrow> screen \<Rightarrow> manager option \<times> screen" where
  "manager_init n scr =
     (case create_overlays n (get_all scr) [] scr of
        (None, scr1) \<Rightarrow> (None, scr1)
      | (Some ovs, scr1) \<Rightarrow>
          (Some \<lparr>overlays = ovs,
                 timer = (if ovs \<noteq> [] then Some \<lparr>milliseconds = 1500, one_shot = True\<rparr>
                          else None)\<rparr>,
           scr1))"

text \<open>The loop of \<^verbatim>\<open>on_timer\<close>: every overlay is closed, an exception is passed over.\<close>

fun close_all :: "overlay list \<Rightarrow> screen \<Rightarrow> screen" where
  "close_all [] scr = scr"
| "close_all (ov # ovs) scr = close_all ovs (snd (close_overlay ov scr))"

definition on_timer :: "manager \<Rightarrow> screen \<Rightarrow> manager \<times> screen" where
  "on_timer self scr = (self\<lparr>overlays := []\<rparr>, close_all (overlays self) scr)"

text \<open>
  \<^verbatim>\<open>_show_desktop_overlay\<close>, the call that \<^verbatim>\<open>wx.CallAfter\<close> queued. It catches the
  exception of the manager and prints \<^verbatim>\<open>Error showing desktop overlay\<close>: the first
  component is \<open>False\<close> on that branch.
\<close>

definition show_desktop_overlay :: "int \<Rightarrow> screen \<Rightarrow> bool \<times> manager option \<times> screen" where
  "show_desktop_overlay n scr =
     (case manager_init n scr of
        (None, scr1) \<Rightarrow> (False, None, scr1)
      | (Some overlay_manager, scr1) \<Rightarrow> (True, Some overlay_manager, scr1))"

text \<open>
  The batch that a display of \<open>n\<close> is expected to create for the monitors \<open>ms\<close> when the
  next window is \<open>k\<close>: one overlay for each monitor, in the order of the monitors, 20
  pixels right of and below the top-left corner of its monitor.
\<close>

definition one_per_monitor :: "int \<Rightarrow> nat \<Rightarrow> monitor list \<Rightarrow> overlay list" where
  "one_per_monitor n k ms =
     map (\<lambda>(i, m). \<lparr>ov_id = i, desktop_number = n,
                      ov_x = left m + 20, ov_y = top_edge m + 20\<rparr>)
         (enumerate k ms)"

text \<open>
  Window identities are fresh: the next identity is above that of every window shown.
  This holds of the empty screen and is kept by every operation on the screen.
\<close>

definition fresh_ids :: "screen \<Rightarrow> bool" where
  "fresh_ids scr = (\<forall>ov\<in>set (scr_open scr). ov_id ov < scr_next scr)"

text \<open>The overlay requests, the switches and the pins in a log of calls.\<close>

fun overlay_requests :: "call list \<Rightarrow> int list" where
  "overlay_requests [] = []"
| "overlay_requests (Call_after_overlay n # cs) = n # overlay_requests cs"
| "overlay_requests (c # cs) = overlay_requests cs"

fun pin_calls :: "call list \<Rightarrow> int list" where
  "pin_calls [] = []"
| "pin_calls (Pin h # cs) = h # pin_calls cs"
| "pin_calls (c # cs) = pin_calls cs"

fun go_calls :: "call list \<Rightarrow> int list" where
  "go_calls [] = []"
| "go_calls (Go n # cs) = n # go_calls cs"
| "go_calls (c # cs) = go_calls cs"

section \<open>Concrete states\<close>

definition os0 :: os where
  "os0 = \<lparr>os_current = Some 3, os_go_fails = {}, os_foreground = 7, os_no_view = {},
          os_move_fails = {}, os_pin_fails = {}, os_pinned = {},
          os_window_desktop = Map.empty, os_calls = []\<rparr>"

definition vda0 :: vda where
  "vda0 = \<lparr>current_desktop_number = Some 3, previous_desktop_number = None, frame = True\<rparr>"

text \<open>
  A tracker whose cache is stale (the desktop was changed from outside, from 2 to 3),
  and an operating system that refuses the switch to desktop 5.
\<close>

definition vda_stale :: vda where
  "vda_stale = \<lparr>current_desktop_number = Some 2, previous_desktop_number = Some 1,
                frame = True\<rparr>"

definition os_no5 :: os where
  "os_no5 = os0\<lparr>os_go_fails := {5}\<rparr>"

text \<open>An operating system that refuses the switch to desktop 3.\<close>

definition os_no3 :: os where
  "os_no3 = os0\<lparr>os_go_fails := {3}\<rparr>"

text \<open>The foreground window 7 is pinned already.\<close>

definition os_pinned7 :: os where
  "os_pinned7 = os0\<lparr>os_pinned := {7}\<rparr>"

text \<open>
  Two monitors of 1920 by 1080 side by side. On \<open>scr_two\<close> nothing fails, on
  \<open>scr_first_fails\<close> the overlay of the first monitor cannot be created, on
  \<open>scr_second_fails\<close> that of the second. On \<open>scr_sticky\<close> both overlays are created,
  and \<^verbatim>\<open>Close()\<close> raises on the first window that is created.
\<close>

definition scr_two :: screen where
  "scr_two =
     \<lparr>scr_monitors =
        [(65537, \<lparr>rect_left = 0, rect_top = 0, rect_right = 1920, rect_bottom = 1080\<rparr>),
         (65539, \<lparr>rect_left = 1920, rect_top = 0, rect_right = 3840, rect_bottom = 1080\<rparr>)],
      scr_open = [], scr_next = 0, scr_create_fails = {}, scr_close_fails = {}\<rparr>"

definition scr_first_fails :: screen where
  "scr_first_fails = scr_two\<lparr>scr_create_fails := {(20, 20)}\<rparr>"

definition scr_second_fails :: screen where
  "scr_second_fails = scr_two\<lparr>scr_create_fails := {(1940, 20)}\<rparr>"

definition scr_sticky :: screen where
  "scr_sticky = scr_two\<lparr>scr_close_fails := {0}\<rparr>"

definition monitor_1 :: monitor where
  "monitor_1 = \<lparr>index = 0, handle = 65537, left = 0, top_edge = 0,
                width = 1920, height = 1080\<rparr>"

definition monitor_2 :: monitor where
  "monitor_2 = \<lparr>index = 1, handle = 65539, left = 1920, top_edge = 0,
                width = 1920, height = 1080\<rparr>"

text \<open>The switch from desktop 3 to desktop 5, and the return to the previous desktop.\<close>

definition run_to_5 :: "outcome \<times> vda \<times> os" where
  "run_to_5 = switch_desktop_by_number vda0 5 os0"

definition run_back :: "outcome \<times> vda \<times> os" where
  "run_back = switch_to_previous_desktop (fst (snd run_to_5)) (snd (snd run_to_5))"

definition run_back_again :: "outcome \<times> vda \<times> os" where
  "run_back_again = switch_to_previous_desktop (fst (snd run_back)) (snd (snd run_back))"

text \<open>The same two calls when the operating system refuses the switch to desktop 3.\<close>

definition run_to_5_no3 :: "outcome \<times> vda \<times> os" where
  "run_to_5_no3 = switch_desktop_by_number vda0 5 os_no3"

definition run_back_no3 :: "outcome \<times> vda \<times> os" where
  "run_back_no3 =
     switch_to_previous_desktop (fst (snd run_to_5_no3)) (snd (snd run_to_5_no3))"

text \<open>A display of 7 on \<open>scr_sticky\<close>, and the expiry of its timer.\<close>

definition shown_sticky :: "manager option \<times> screen" where
  "shown_sticky = manager_init 7 scr_sticky"

definition expired_sticky :: "manager \<times> screen" where
  "expired_sticky = on_timer (the (fst shown_sticky)) (snd shown_sticky)"

section \<open>Facts about the logs and the batches\<close>

lemmas os_prims = logged_def vd_current_def vd_go_def get_foreground_window_def app_view_def
  view_move_def view_is_pinned_def view_pin_def call_after_overlay_def

lemma overlay_requests_append:
  "overlay_requests (xs @ ys) = overlay_requests xs @ overlay_requests ys"
  by (induction xs rule: overlay_requests.induct) auto

lemma go_calls_append: "go_calls (xs @ ys) = go_calls xs @ go_calls ys"
  by (induction xs rule: go_calls.induct) auto

lemma pin_calls_append: "pin_calls (xs @ ys) = pin_calls xs @ pin_calls ys"
  by (induction xs rule: pin_calls.induct) auto

lemma str_digit: "1 \<le> n \<Longrightarrow> n \<le> 9 \<Longrightarrow> str n = [''0123456789'' ! nat n]"
  by (simp add: str_def digit_char_def)

lemma get_all_scr_two: "get_all scr_two = [monitor_1, monitor_2]"
  by (simp add: get_all_def scr_two_def enum_monitors_callback_def monitor_1_def
        monitor_2_def)

lemma one_per_monitor_Nil: "one_per_monitor n k [] = []"
  by (simp add: one_per_monitor_def)

lemma one_per_monitor_Cons:
  "one_per_monitor n k (m # ms) =
     \<lparr>ov_id = k, desktop_number = n, ov_x = left m + 20, ov_y = top_edge m + 20\<rparr>
     # one_per_monitor n (Suc k) ms"
  by (simp add: one_per_monitor_def)

lemma length_one_per_monitor: "length (one_per_monitor n k ms) = length ms"
  by (simp add: one_per_monitor_def)

lemma nth_one_per_monitor:
  "i < length ms \<Longrightarrow>
   one_per_monitor n k ms ! i =
     \<lparr>ov_id = k + i, desktop_number = n,
      ov_x = left (ms ! i) + 20, ov_y = top_edge (ms ! i) + 20\<rparr>"
  by (simp add: one_per_monitor_def nth_enumerate_eq)

lemma ids_one_per_monitor: "map ov_id (one_per_monitor n k ms) = [k ..< k + length ms]"
proof (induction ms arbitrary: k)
  case Nil
  show ?case by (simp add: one_per_monitor_Nil)
next
  case (Cons m ms)
  then show ?case by (simp add: one_per_monitor_Cons upt_rec)
qed

text \<open>The loop of the constructor when no overlay fails, and when one does.\<close>

lemma create_overlays_ok:
  "\<forall>m\<in>set ms. (left m + 20, top_edge m + 20) \<notin> scr_create_fails scr \<Longrightarrow>
   create_overlays n ms acc scr =
     (Some (acc @ one_per_monitor n (scr_next scr) ms),
      scr\<lparr>scr_open := scr_open scr @ one_per_monitor n (scr_next scr) ms,
          scr_next := scr_next scr + length ms\<rparr>)"
proof (induction ms arbitrary: acc scr)
  case Nil
  then show ?case by (simp add: one_per_monitor_Nil)
next
  case (Cons m ms)
  then show ?case by (simp add: new_overlay_def Let_def one_per_monitor_Cons)
qed

lemma create_overlays_fail:
  "\<forall>p\<in>set pre. (left p + 20, top_edge p + 20) \<notin> scr_create_fails scr \<Longrightarrow>
   (left m + 20, top_edge m + 20) \<in> scr_create_fails scr \<Longrightarrow>
   create_overlays n (pre @ m # post) acc scr =
     (None,
      scr\<lparr>scr_open := scr_open scr @ one_per_monitor n (scr_next scr) pre,
          scr_next := scr_next scr + length pre\<rparr>)"
proof (induction pre arbitrary: acc scr)
  case Nil
  then show ?case by (simp add: new_overlay_def one_per_monitor_Nil)
next
  case (Cons p pre)
  then show ?case by (simp add: new_overlay_def Let_def one_per_monitor_Cons)
qed

text \<open>The identities stay fresh.\<close>

lemma fresh_ids_create_overlays:
  "fresh_ids scr \<Longrightarrow> fresh_ids (snd (create_overlays n ms acc scr))"
proof (induction ms arbitrary: acc scr)
  case Nil
  then show ?case by simp
next
  case (Cons m ms)
  show ?case
  proof (cases "(left m + 20, top_edge m + 20) \<in> scr_create_fails scr")
    case True
    with Cons.prems show ?thesis by (simp add: new_overlay_def)
  next
    case False
    let ?ov = "\<lparr>ov_id = scr_next scr, desktop_number = n,
                ov_x = left m + 20, ov_y = top_edge m + 20\<rparr>"
    let ?scr1 = "scr\<lparr>scr_open := scr_open scr @ [?ov], scr_next := Suc (scr_next scr)\<rparr>"
    from Cons.prems have "fresh_ids ?scr1"
      by (auto simp: fresh_ids_def less_Suc_eq)
    then have "fresh_ids (snd (create_overlays n ms (acc @ [?ov]) ?scr1))"
      by (rule Cons.IH)
    with False show ?thesis by (simp add: new_overlay_def Let_def)
  qed
qed

lemma fresh_ids_manager_init: "fresh_ids scr \<Longrightarrow> fresh_ids (snd (manager_init n scr))"
  using fresh_ids_create_overlays [of scr n "get_all scr" "[]"]
  by (auto simp add: manager_init_def split: prod.splits option.splits)

lemma fresh_ids_close_all: "fresh_ids scr \<Longrightarrow> fresh_ids (close_all ovs scr)"
proof (induction ovs arbitrary: scr)
  case Nil
  then show ?case by simp
next
  case (Cons ov ovs)
  from Cons.prems have "fresh_ids (snd (close_overlay ov scr))"
    by (auto simp: close_overlay_def fresh_ids_def)
  then show ?case by (simp add: Cons.IH)
qed

text \<open>
  Closing a list of distinct windows that are shown removes exactly those whose
  \<^verbatim>\<open>Close()\<close> does not raise.
\<close>

lemma close_all_keeps_failing:
  "distinct (map ov_id ovs) \<Longrightarrow>
   ov_id ` set ovs \<subseteq> ov_id ` set (scr_open scr) \<Longrightarrow>
   close_all ovs scr =
     scr\<lparr>scr_open := filter (\<lambda>v. ov_id v \<notin> ov_id ` set ovs - scr_close_fails scr)
                          (scr_open scr)\<rparr>"
proof (induction ovs arbitrary: scr)
  case Nil
  then show ?case by simp
next
  case (Cons ov ovs)
  show ?case
  proof (cases "ov_id ov \<in> scr_close_fails scr")
    case True
    then have step: "close_overlay ov scr = (False, scr)"
      by (simp add: close_overlay_def)
    from Cons.prems have "close_all ovs scr =
        scr\<lparr>scr_open := filter (\<lambda>v. ov_id v \<notin> ov_id ` set ovs - scr_close_fails scr)
                             (scr_open scr)\<rparr>"
      by (intro Cons.IH) auto
    moreover from True have
      "ov_id ` set (ov # ovs) - scr_close_fails scr = ov_id ` set ovs - scr_close_fails scr"
      by auto
    ultimately show ?thesis using step by simp
  next
    case False
    let ?scr1 = "scr\<lparr>scr_open := filter (\<lambda>v. ov_id v \<noteq> ov_id ov) (scr_open scr)\<rparr>"
    from Cons.prems False have step: "close_overlay ov scr = (True, ?scr1)"
      by (auto simp: close_overlay_def)
    have sub: "ov_id ` set ovs \<subseteq> ov_id ` set (scr_open ?scr1)"
    proof
      fix k assume k: "k \<in> ov_id ` set ovs"
      from Cons.prems(1) have "ov_id ov \<notin> ov_id ` set ovs" by simp
      with k have "k \<noteq> ov_id ov" by blast
      moreover from k Cons.prems(2) obtain v where "v \<in> set (scr_open scr)" "ov_id v = k"
        by auto
      ultimately show "k \<in> ov_id ` set (scr_open ?scr1)" by force
    qed
    from Cons.prems have ih: "close_all ovs ?scr1 =
        ?scr1\<lparr>scr_open := filter (\<lambda>v. ov_id v \<notin> ov_id ` set ovs - scr_close_fails ?scr1)
                               (scr_open ?scr1)\<rparr>"
      using sub by (intro Cons.IH) auto
    have flt: "filter (\<lambda>v. ov_id v \<notin> ov_id ` set ovs - scr_close_fails scr)
                 (filter (\<lambda>v. ov_id v \<noteq> ov_id ov) (scr_open scr)) =
               filter (\<lambda>v. ov_id v \<notin> ov_id ` set (ov # ovs) - scr_close_fails scr)
                 (scr_open scr)"
      unfolding filter_filter by (rule filter_cong) (use False in auto)
    have "close_all (ov # ovs) scr = close_all ovs ?scr1"
      using step by simp
    also note ih
    also have "?scr1\<lparr>scr_open := filter (\<lambda>v. ov_id v \<notin> ov_id ` set ovs - scr_close_fails ?scr1)
                               (scr_open ?scr1)\<rparr> =
        scr\<lparr>scr_open := filter (\<lambda>v. ov_id v \<notin> ov_id ` set ovs - scr_close_fails scr)
                 (filter (\<lambda>v. ov_id v \<noteq> ov_id ov) (scr_open scr))\<rparr>"
      by simp
    also note flt
    finally show ?thesis .
  qed
qed

lemma close_fresh_batch:
  assumes fresh: "fresh_ids scr"
  shows "scr_open (close_all (one_per_monitor n (scr_next scr) ms)
            (scr\<lparr>scr_open := scr_open scr @ one_per_monitor n (scr_next scr) ms,
                 scr_next := scr_next scr + length ms\<rparr>)) =
         scr_open scr @
         filter (\<lambda>ov. ov_id ov \<in> scr_close_fails scr) (one_per_monitor n (scr_next scr) ms)"
proof -
  let ?b = "one_per_monitor n (scr_next scr) ms"
  let ?scr1 = "scr\<lparr>scr_open := scr_open scr @ ?b, scr_next := scr_next scr + length ms\<rparr>"
  have ids: "ov_id ` set ?b = {scr_next scr ..< scr_next scr + length ms}"
    using ids_one_per_monitor [of n "scr_next scr" ms]
    by (metis atLeastLessThan_upt set_map)
  have d: "distinct (map ov_id ?b)"
    by (simp add: ids_one_per_monitor)
  have "close_all ?b ?scr1 =
      ?scr1\<lparr>scr_open := filter (\<lambda>v. ov_id v \<notin> ov_id ` set ?b - scr_close_fails ?scr1)
                             (scr_open ?scr1)\<rparr>"
    using d by (intro close_all_keeps_failing) auto
  moreover have "filter (\<lambda>v. ov_id v \<notin> ov_id ` set ?b - scr_close_fails scr) (scr_open scr)
      = scr_open scr"
    using fresh by (auto simp: ids filter_id_conv fresh_ids_def)
  moreover have "filter (\<lambda>v. ov_id v \<notin> ov_id ` set ?b - scr_close_fails scr) ?b =
      filter (\<lambda>ov. ov_id ov \<in> scr_close_fails scr) ?b"
    by (auto intro!: filter_cong)
  ultimately show ?thesis by simp
qed

section \<open>Validation of the desktop number\<close>

text \<open>
  C6. For every integer \<open>n\<close> outside 1..10, \<^verbatim>\<open>switch_desktop_by_number\<close> and
  \<^verbatim>\<open>move_window_to_desktop\<close> both report an invalid desktop number, make no call to the
  operating system (the state of the operating system, with its log of calls, is the one
  before), and leave the accessor, so \<open>current\<close> and \<open>previous\<close>, as it was.
\<close>

theorem invalid_desktop_number_rejected:
  "n < 1 \<or> 10 < n \<Longrightarrow>
     switch_desktop_by_number self n w = (Invalid_desktop_number, self, w) \<and>
     move_window_to_desktop self n w = (Invalid_desktop_number, self, w)"
  by (auto simp: switch_desktop_by_number_def move_window_to_desktop_def)

theorem invalid_desktop_number_rejected_witness:
  "((11::int) < 1 \<or> (10::int) < 11) \<and>
   switch_desktop_by_number vda0 11 os0 = (Invalid_desktop_number, vda0, os0) \<and>
   move_window_to_desktop vda0 11 os0 = (Invalid_desktop_number, vda0, os0)"
  using invalid_desktop_number_rejected [of 11 vda0 os0] by simp

section \<open>Switching\<close>

text \<open>
  C1, as the specification states it: from desktop \<open>m\<close>, after a switch to \<open>n\<close> that
  succeeds, a following \<^verbatim>\<open>switch_to_previous_desktop()\<close> succeeds, with \<open>previous = n\<close> and
  \<open>current = m\<close>. On \<open>os_no3\<close> the operating system is on desktop 3 and refuses the
  switch to desktop 3. The switch to 5 succeeds; the return raises in \<^verbatim>\<open>desktop.go()\<close>,
  the handler reports the error, and \<open>previous\<close> and \<open>current\<close> stay 3 and 5.
\<close>

theorem return_switch_counterexample:
  "os_current os_no3 = Some 3 \<and>
   fst run_to_5_no3 = Switched \<and>
   previous_desktop_number (fst (snd run_to_5_no3)) = Some 3 \<and>
   current_desktop_number (fst (snd run_to_5_no3)) = Some 5 \<and>
   fst run_back_no3 = Error_switching \<and>
   fst run_back_no3 \<noteq> Switched \<and>
   previous_desktop_number (fst (snd run_back_no3)) = Some 3 \<and>
   current_desktop_number (fst (snd run_back_no3)) = Some 5"
  by (simp add: run_back_no3_def run_to_5_no3_def switch_to_previous_desktop_def
        switch_desktop_by_number_def os_prims os_no3_def os0_def vda0_def)

text \<open>
  C1, amended. Let \<open>m\<close> and \<open>n\<close> be distinct desktops in 1..10, let the operating system
  report desktop \<open>m\<close>, and let \<^verbatim>\<open>switch_desktop_by_number(n)\<close> succeed. Then \<open>previous\<close> is
  \<open>m\<close> and \<open>current\<close> is \<open>n\<close>, and a following \<^verbatim>\<open>switch_to_previous_desktop()\<close> is the call
  \<^verbatim>\<open>switch_desktop_by_number(m)\<close>. When the operating system does not refuse the switch
  to \<open>m\<close>, that call succeeds with \<open>previous = n\<close> and \<open>current = m\<close>, and one more
  \<^verbatim>\<open>switch_to_previous_desktop()\<close> is back at \<open>previous = m\<close> and \<open>current = n\<close>: the two
  desktops alternate. When it refuses, the call reports the error and the accessor is
  as it was after the first switch.
\<close>

theorem switch_then_previous_toggles:
  assumes "1 \<le> m" "m \<le> 10" "1 \<le> n" "n \<le> 10" "m \<noteq> n"
    and "os_current w = Some m"
    and "fst (switch_desktop_by_number self n w) = Switched"
  shows "\<exists>self1 w1.
     switch_desktop_by_number self n w = (Switched, self1, w1) \<and>
     previous_desktop_number self1 = Some m \<and> current_desktop_number self1 = Some n \<and>
     switch_to_previous_desktop self1 w1 = switch_desktop_by_number self1 m w1 \<and>
     (m \<notin> os_go_fails w \<longrightarrow>
        (\<exists>self2 w2 self3 w3.
           switch_to_previous_desktop self1 w1 = (Switched, self2, w2) \<and>
           previous_desktop_number self2 = Some n \<and>
           current_desktop_number self2 = Some m \<and>
           switch_to_previous_desktop self2 w2 = (Switched, self3, w3) \<and>
           previous_desktop_number self3 = Some m \<and>
           current_desktop_number self3 = Some n)) \<and>
     (m \<in> os_go_fails w \<longrightarrow>
        (\<exists>w2. switch_to_previous_desktop self1 w1 = (Error_switching, self1, w2)))"
proof -
  from assms have ok: "n \<notin> os_go_fails w"
    by (auto simp: switch_desktop_by_number_def os_prims split: if_splits)
  with assms show ?thesis
    by (simp add: switch_desktop_by_number_def switch_to_previous_desktop_def os_prims)
qed

theorem switch_then_previous_toggles_witness:
  "os_current os0 = Some 3 \<and> fst (switch_desktop_by_number vda0 5 os0) = Switched \<and>
   3 \<notin> os_go_fails os0 \<and>
   fst run_to_5 = Switched \<and>
   previous_desktop_number (fst (snd run_to_5)) = Some 3 \<and>
   current_desktop_number (fst (snd run_to_5)) = Some 5 \<and>
   fst run_back = Switched \<and>
   previous_desktop_number (fst (snd run_back)) = Some 5 \<and>
   current_desktop_number (fst (snd run_back)) = Some 3 \<and>
   fst run_back_again = Switched \<and>
   previous_desktop_number (fst (snd run_back_again)) = Some 3 \<and>
   current_desktop_number (fst (snd run_back_again)) = Some 5 \<and>
   os_current os_no3 = Some 3 \<and> fst (switch_desktop_by_number vda0 5 os_no3) = Switched \<and>
   3 \<in> os_go_fails os_no3 \<and>
   fst run_back_no3 = Error_switching \<and>
   fst (snd run_back_no3) = fst (snd run_to_5_no3)"
proof -
  have r: "(1::int) \<le> 3" "(3::int) \<le> 10" "(1::int) \<le> 5" "(5::int) \<le> 10" "(3::int) \<noteq> 5"
    by simp_all
  have h1: "os_current os0 = Some 3" by (simp add: os0_def)
  have h2: "fst (switch_desktop_by_number vda0 5 os0) = Switched"
    by (simp add: switch_desktop_by_number_def os_prims os0_def vda0_def)
  have h3: "3 \<notin> os_go_fails os0" by (simp add: os0_def)
  from switch_then_previous_toggles [OF r h1 h2] h3
  obtain self1 w1 self2 w2 self3 w3 where
    "switch_desktop_by_number vda0 5 os0 = (Switched, self1, w1)"
    "previous_desktop_number self1 = Some 3" "current_desktop_number self1 = Some 5"
    "switch_to_previous_desktop self1 w1 = (Switched, self2, w2)"
    "previous_desktop_number self2 = Some 5" "current_desktop_number self2 = Some 3"
    "switch_to_previous_desktop self2 w2 = (Switched, self3, w3)"
    "previous_desktop_number self3 = Some 3" "current_desktop_number self3 = Some 5"
    by blast
  then have good:
    "fst run_to_5 = Switched"
    "previous_desktop_number (fst (snd run_to_5)) = Some 3"
    "current_desktop_number (fst (snd run_to_5)) = Some 5"
    "fst run_back = Switched"
    "previous_desktop_number (fst (snd run_back)) = Some 5"
    "current_desktop_number (fst (snd run_back)) = Some 3"
    "fst run_back_again = Switched"
    "previous_desktop_number (fst (snd run_back_again)) = Some 3"
    "current_desktop_number (fst (snd run_back_again)) = Some 5"
    by (simp_all add: run_to_5_def run_back_def run_back_again_def)
  have k1: "os_current os_no3 = Some 3" by (simp add: os_no3_def os0_def)
  have k2: "fst (switch_desktop_by_number vda0 5 os_no3) = Switched"
    by (simp add: switch_desktop_by_number_def os_prims os_no3_def os0_def vda0_def)
  have k3: "3 \<in> os_go_fails os_no3" by (simp add: os_no3_def)
  from switch_then_previous_toggles [OF r k1 k2] k3
  obtain self1' w1' w2' where
    "switch_desktop_by_number vda0 5 os_no3 = (Switched, self1', w1')"
    "switch_to_previous_desktop self1' w1' = (Error_switching, self1', w2')"
    by blast
  then have bad: "fst run_back_no3 = Error_switching"
    "fst (snd run_back_no3) = fst (snd run_to_5_no3)"
    by (simp_all add: run_to_5_no3_def run_back_no3_def)
  from h1 h2 h3 good k1 k2 k3 bad show ?thesis by simp
qed

text \<open>
  C2, as the specification states it: when the switch primitive fails, \<open>current\<close> and
  \<open>previous\<close> are both as before the call. The cache of \<open>vda_stale\<close> holds desktop 2
  while the operating system is on desktop 3; the switch to desktop 5 fails, and
  \<open>current\<close> is 3 afterwards.
\<close>

theorem failed_switch_counterexample:
  "fst (switch_desktop_by_number vda_stale 5 os_no5) = Error_switching \<and>
   current_desktop_number vda_stale = Some 2 \<and>
   current_desktop_number (fst (snd (switch_desktop_by_number vda_stale 5 os_no5))) = Some 3 \<and>
   current_desktop_number (fst (snd (switch_desktop_by_number vda_stale 5 os_no5)))
     \<noteq> current_desktop_number vda_stale"
  by (simp add: switch_desktop_by_number_def os_prims vda_stale_def os_no5_def os0_def)

text \<open>
  C2, amended. For \<open>n\<close> in 1..10, when the operating system reports a desktop \<open>c\<close> other
  than \<open>n\<close> and the switch primitive fails, the call reports the error, leaves
  \<open>previous\<close> as it was, asks for no overlay, and sets \<open>current\<close> to \<open>c\<close>, the desktop
  that the operating system reported: \<open>current\<close> is unchanged exactly when the cache
  held \<open>c\<close> already.
\<close>

theorem failed_switch_refreshes_current:
  assumes "1 \<le> n" "n \<le> 10" "os_current w = Some c" "c \<noteq> n" "n \<in> os_go_fails w"
  shows "\<exists>w'. switch_desktop_by_number self n w =
            (Error_switching, self\<lparr>current_desktop_number := Some c\<rparr>, w') \<and>
          previous_desktop_number (self\<lparr>current_desktop_number := Some c\<rparr>) =
            previous_desktop_number self \<and>
          (self\<lparr>current_desktop_number := Some c\<rparr> = self
             \<longleftrightarrow> current_desktop_number self = Some c) \<and>
          os_current w' = Some c \<and>
          overlay_requests (os_calls w') = overlay_requests (os_calls w)"
proof -
  have "self\<lparr>current_desktop_number := Some c\<rparr> = self
          \<longleftrightarrow> current_desktop_number self = Some c"
    by (cases self) auto
  with assms show ?thesis
    by (simp add: switch_desktop_by_number_def os_prims overlay_requests_append)
qed

theorem failed_switch_refreshes_current_witness:
  "os_current os_no5 = Some 3 \<and> 5 \<in> os_go_fails os_no5 \<and>
   fst (switch_desktop_by_number vda_stale 5 os_no5) = Error_switching \<and>
   fst (snd (switch_desktop_by_number vda_stale 5 os_no5)) =
     vda_stale\<lparr>current_desktop_number := Some 3\<rparr> \<and>
   previous_desktop_number (fst (snd (switch_desktop_by_number vda_stale 5 os_no5))) = Some 1"
proof -
  have h1: "os_current os_no5 = Some 3" by (simp add: os_no5_def os0_def)
  have h2: "5 \<in> os_go_fails os_no5" by (simp add: os_no5_def)
  have "(1::int) \<le> 5" "(5::int) \<le> 10" by simp_all
  from failed_switch_refreshes_current [OF this h1 _ h2, of vda_stale]
  obtain w' where "switch_desktop_by_number vda_stale 5 os_no5 =
      (Error_switching, vda_stale\<lparr>current_desktop_number := Some 3\<rparr>, w')"
    by auto
  with h1 h2 show ?thesis by (simp add: vda_stale_def)
qed

text \<open>
  C4. For \<open>n\<close> in 1..10, when the operating system reports desktop \<open>n\<close>,
  \<^verbatim>\<open>switch_desktop_by_number(n)\<close> reports that the desktop is the active one already: it
  leaves \<open>previous\<close> as it was, makes no call of the switch primitive and asks for no
  overlay; its one effect on the accessor is that \<open>current\<close> holds \<open>n\<close>. A second such
  call reports the same and leaves the accessor as the first left it.
\<close>

theorem switch_to_live_desktop_is_noop:
  assumes "1 \<le> n" "n \<le> 10" "os_current w = Some n"
  shows "\<exists>self1 w1 w2.
     switch_desktop_by_number self n w = (Already_on_desktop, self1, w1) \<and>
     self1 = self\<lparr>current_desktop_number := Some n\<rparr> \<and>
     previous_desktop_number self1 = previous_desktop_number self \<and>
     go_calls (os_calls w1) = go_calls (os_calls w) \<and>
     overlay_requests (os_calls w1) = overlay_requests (os_calls w) \<and>
     switch_desktop_by_number self1 n w1 = (Already_on_desktop, self1, w2) \<and>
     go_calls (os_calls w2) = go_calls (os_calls w) \<and>
     overlay_requests (os_calls w2) = overlay_requests (os_calls w)"
  using assms
  by (simp add: switch_desktop_by_number_def os_prims overlay_requests_append go_calls_append)

theorem switch_to_live_desktop_is_noop_witness:
  "os_current os0 = Some 3 \<and>
   fst (switch_desktop_by_number vda0 3 os0) = Already_on_desktop \<and>
   previous_desktop_number (fst (snd (switch_desktop_by_number vda0 3 os0))) = None \<and>
   os_calls (snd (snd (switch_desktop_by_number vda0 3 os0))) = [Current_desktop]"
proof -
  have h: "os_current os0 = Some 3" by (simp add: os0_def)
  have "(1::int) \<le> 3" "(3::int) \<le> 10" by simp_all
  from switch_to_live_desktop_is_noop [OF this h, of vda0]
  obtain self1 w1 where
    "switch_desktop_by_number vda0 3 os0 = (Already_on_desktop, self1, w1)"
    "previous_desktop_number self1 = previous_desktop_number vda0"
    by blast
  moreover have "os_calls (snd (snd (switch_desktop_by_number vda0 3 os0))) = [Current_desktop]"
    by (simp add: switch_desktop_by_number_def os_prims os0_def)
  ultimately show ?thesis using h by (simp add: vda0_def)
qed

text \<open>
  C10. For \<open>n\<close> in 1..10, a call of \<^verbatim>\<open>switch_desktop_by_number(n)\<close> to which the operating
  system reports the desktop \<open>c\<close> stores \<open>c\<close> in \<open>current\<close> before it decides: \<open>current\<close>
  is \<open>c\<close> afterwards both when \<open>c\<close> is \<open>n\<close> (the desktop is active already) and when the
  switch primitive fails, and \<open>previous\<close> is as it was on these two paths.
\<close>

theorem switch_refreshes_cache:
  assumes "1 \<le> n" "n \<le> 10" "os_current w = Some c" "c = n \<or> n \<in> os_go_fails w"
  shows "\<exists>self' w'.
     switch_desktop_by_number self n w =
       (if c = n then Already_on_desktop else Error_switching, self', w') \<and>
     current_desktop_number self' = Some c \<and>
     previous_desktop_number self' = previous_desktop_number self"
  using assms
  by (auto simp add: switch_desktop_by_number_def os_prims)

theorem switch_refreshes_cache_witness:
  "os_current os0 = Some 3 \<and>
   fst (switch_desktop_by_number vda_stale 3 os0) = Already_on_desktop \<and>
   current_desktop_number vda_stale = Some 2 \<and>
   current_desktop_number (fst (snd (switch_desktop_by_number vda_stale 3 os0))) = Some 3 \<and>
   previous_desktop_number (fst (snd (switch_desktop_by_number vda_stale 3 os0))) = Some 1"
proof -
  have h: "os_current os0 = Some 3" by (simp add: os0_def)
  have "(1::int) \<le> 3" "(3::int) \<le> 10" "(3::int) = 3 \<or> 3 \<in> os_go_fails os0" by simp_all
  from switch_refreshes_cache [OF this(1,2) h this(3), of vda_stale]
  obtain self' w' where
    "switch_desktop_by_number vda_stale 3 os0 = (Already_on_desktop, self', w')"
    "current_desktop_number self' = Some 3"
    "previous_desktop_number self' = previous_desktop_number vda_stale"
    by auto
  with h show ?thesis by (simp add: vda_stale_def)
qed

text \<open>
  C7. When \<open>previous\<close> is unset, \<^verbatim>\<open>switch_to_previous_desktop()\<close> reports that no previous
  desktop is recorded, and the accessor and the operating system are as before.
\<close>

theorem no_previous_desktop:
  "previous_desktop_number self = None \<Longrightarrow>
   switch_to_previous_desktop self w = (No_previous_desktop, self, w)"
  by (simp add: switch_to_previous_desktop_def)

theorem no_previous_desktop_witness:
  "previous_desktop_number vda0 = None \<and>
   switch_to_previous_desktop vda0 os0 = (No_previous_desktop, vda0, os0)"
proof -
  have h: "previous_desktop_number vda0 = None" by (simp add: vda0_def)
  from no_previous_desktop [OF h] h show ?thesis by simp
qed

section \<open>Moving and pinning the active window\<close>

text \<open>
  C9. For \<open>n\<close> in 1..10, \<^verbatim>\<open>move_window_to_desktop(n)\<close> ends in one of three ways (the
  window is moved, there is no active window, the move fails); in each the accessor,
  so \<open>current\<close> and \<open>previous\<close>, is as before, no overlay is asked for and no switch
  is made.
\<close>

theorem move_leaves_tracker:
  assumes "1 \<le> n" "n \<le> 10"
  shows "\<exists>out w'.
     move_window_to_desktop self n w = (out, self, w') \<and>
     (out = Moved \<or> out = No_active_window \<or> out = Error_moving) \<and>
     overlay_requests (os_calls w') = overlay_requests (os_calls w) \<and>
     go_calls (os_calls w') = go_calls (os_calls w)"
  using assms
  by (auto simp add: move_window_to_desktop_def os_prims overlay_requests_append
        go_calls_append split: bool.splits)

theorem move_leaves_tracker_witness:
  "fst (move_window_to_desktop vda0 4 os0) = Moved \<and>
   fst (snd (move_window_to_desktop vda0 4 os0)) = vda0 \<and>
   os_window_desktop (snd (snd (move_window_to_desktop vda0 4 os0))) 7 = Some 4 \<and>
   overlay_requests (os_calls (snd (snd (move_window_to_desktop vda0 4 os0)))) = []"
proof -
  have "(1::int) \<le> 4" "(4::int) \<le> 10" by simp_all
  from move_leaves_tracker [OF this, of vda0 os0]
  obtain out w' where r: "move_window_to_desktop vda0 4 os0 = (out, vda0, w')"
    and q: "overlay_requests (os_calls w') = overlay_requests (os_calls os0)"
    by blast
  have "fst (move_window_to_desktop vda0 4 os0) = Moved"
    "os_window_desktop (snd (snd (move_window_to_desktop vda0 4 os0))) 7 = Some 4"
    by (simp_all add: move_window_to_desktop_def os_prims os0_def)
  with r q show ?thesis by (simp add: os0_def)
qed

text \<open>
  C8, as the specification states it: whenever there is a foreground window, the first
  of two calls of \<^verbatim>\<open>pin_window()\<close> reports that it pinned the window. On \<open>os_pinned7\<close> the
  foreground window is pinned before the first call, which reports so.
\<close>

theorem pin_twice_counterexample:
  "os_foreground os_pinned7 = 7 \<and>
   fst (pin_window vda0 os_pinned7) = Already_pinned \<and>
   fst (pin_window vda0 os_pinned7) \<noteq> Pinned"
  by (simp add: pin_window_def os_prims os_pinned7_def os0_def)

text \<open>
  C8, amended. Whenever there is a foreground window on which the calls of the
  operating system do not fail, the first of two calls of \<^verbatim>\<open>pin_window()\<close> reports that
  it pinned the window when the window was not pinned, and that the window is pinned
  already when it was; the second call reports that the window is pinned already. The
  pin primitive is called once in the first case, and not at all in the second.
\<close>

theorem pin_twice:
  assumes "os_foreground w \<noteq> 0" "os_foreground w \<notin> os_no_view w"
    and "os_foreground w \<notin> os_pin_fails w"
  shows "\<exists>w1 w2.
     pin_window self w =
       (if os_foreground w \<in> os_pinned w then Already_pinned else Pinned, self, w1) \<and>
     pin_window self w1 = (Already_pinned, self, w2) \<and>
     pin_calls (os_calls w2) =
       pin_calls (os_calls w) @
       (if os_foreground w \<in> os_pinned w then [] else [os_foreground w])"
  using assms
  by (simp add: pin_window_def os_prims pin_calls_append)

theorem pin_twice_witness:
  "os_foreground os0 \<noteq> 0 \<and> os_foreground os0 \<notin> os_no_view os0 \<and>
   os_foreground os0 \<notin> os_pin_fails os0 \<and>
   fst (pin_window vda0 os0) = Pinned \<and>
   fst (pin_window vda0 (snd (snd (pin_window vda0 os0)))) = Already_pinned \<and>
   pin_calls (os_calls (snd (snd (pin_window vda0 (snd (snd (pin_window vda0 os0))))))) = [7]"
proof -
  have h: "os_foreground os0 \<noteq> 0" "os_foreground os0 \<notin> os_no_view os0"
    "os_foreground os0 \<notin> os_pin_fails os0"
    by (simp_all add: os0_def)
  from pin_twice [OF h, of vda0]
  obtain w1 w2 where
    "pin_window vda0 os0 =
       (if os_foreground os0 \<in> os_pinned os0 then Already_pinned else Pinned, vda0, w1)"
    "pin_window vda0 w1 = (Already_pinned, vda0, w2)"
    "pin_calls (os_calls w2) =
       pin_calls (os_calls os0) @
       (if os_foreground os0 \<in> os_pinned os0 then [] else [os_foreground os0])"
    by blast
  with h show ?thesis by (simp add: os0_def)
qed

section \<open>The overlays\<close>

text \<open>
  C5, as the specification states it: for every list of monitors, a display creates one
  overlay for each monitor, and no overlay of the batch remains once the timer has
  fired. On \<open>scr_sticky\<close> the display of 7 shows two overlays and \<^verbatim>\<open>Close()\<close> raises on the
  first; \<^verbatim>\<open>on_timer\<close> passes over the exception, empties the list of the manager, and the
  first overlay is on the screen still. On \<open>scr_first_fails\<close> there are two monitors and
  the display of 10 shows no overlay and yields no manager.
\<close>

theorem display_counterexample:
  "get_all scr_sticky = [monitor_1, monitor_2] \<and>
   scr_open (snd shown_sticky) =
     [\<lparr>ov_id = 0, desktop_number = 7, ov_x = 20, ov_y = 20\<rparr>,
      \<lparr>ov_id = 1, desktop_number = 7, ov_x = 1940, ov_y = 20\<rparr>] \<and>
   overlays (fst expired_sticky) = [] \<and>
   scr_open (snd expired_sticky) =
     [\<lparr>ov_id = 0, desktop_number = 7, ov_x = 20, ov_y = 20\<rparr>] \<and>
   scr_open (snd expired_sticky) \<noteq> [] \<and>
   get_all scr_first_fails = [monitor_1, monitor_2] \<and>
   fst (manager_init 10 scr_first_fails) = None \<and>
   scr_open (snd (manager_init 10 scr_first_fails)) = []"
  by (simp add: expired_sticky_def shown_sticky_def on_timer_def close_overlay_def
        manager_init_def get_all_def enum_monitors_callback_def new_overlay_def Let_def
        scr_sticky_def scr_first_fails_def scr_two_def monitor_1_def monitor_2_def)

text \<open>
  C5, amended. For \<open>n\<close> in 1..10, when no overlay fails to be created, the manager of a
  display of \<open>n\<close> holds one overlay for each monitor that the enumeration returned, in the
  order of the monitors, each 20 pixels right of and below the top-left corner of its
  monitor and each showing \<open>0\<close> when \<open>n\<close> is 10 and the digit of \<open>n\<close> otherwise; these are
  the windows added to the screen, and one one-shot timer of 1500 milliseconds is started
  for them (none when there is no monitor). When the timer fires, the manager holds no
  overlay any more, and the screen shows what it showed before the display and, after
  that, the overlays of the batch on which \<^verbatim>\<open>Close()\<close> raised. The manager has no method
  to cancel: the timer is the one way in which a batch ends.
\<close>

theorem display_one_overlay_per_monitor:
  assumes "1 \<le> n" "n \<le> 10"
    and "\<forall>m\<in>set (get_all scr). (left m + 20, top_edge m + 20) \<notin> scr_create_fails scr"
  shows "\<exists>mgr scr1.
     manager_init n scr = (Some mgr, scr1) \<and>
     length (overlays mgr) = length (get_all scr) \<and>
     (\<forall>i<length (get_all scr).
        ov_x (overlays mgr ! i) = left (get_all scr ! i) + 20 \<and>
        ov_y (overlays mgr ! i) = top_edge (get_all scr ! i) + 20 \<and>
        ov_id (overlays mgr ! i) = scr_next scr + i \<and>
        overlay_text (overlays mgr ! i) =
          (if n = 10 then ''0'' else [''0123456789'' ! nat n])) \<and>
     scr_open scr1 = scr_open scr @ overlays mgr \<and>
     timer mgr = (if get_all scr = [] then None
                  else Some \<lparr>milliseconds = 1500, one_shot = True\<rparr>) \<and>
     overlays (fst (on_timer mgr scr1)) = [] \<and>
     (fresh_ids scr \<longrightarrow>
      scr_open (snd (on_timer mgr scr1)) =
        scr_open scr @ filter (\<lambda>ov. ov_id ov \<in> scr_close_fails scr) (overlays mgr))"
proof -
  let ?ms = "get_all scr"
  let ?b = "one_per_monitor n (scr_next scr) ?ms"
  let ?scr1 = "scr\<lparr>scr_open := scr_open scr @ ?b, scr_next := scr_next scr + length ?ms\<rparr>"
  let ?mgr = "\<lparr>overlays = ?b,
              timer = (if ?b \<noteq> [] then Some \<lparr>milliseconds = 1500, one_shot = True\<rparr>
                       else None)\<rparr>"
  from assms(3) have init: "manager_init n scr = (Some ?mgr, ?scr1)"
    by (simp add: manager_init_def create_overlays_ok)
  have len: "length (overlays ?mgr) = length ?ms"
    by (simp add: length_one_per_monitor)
  have shown: "n \<noteq> 10 \<Longrightarrow> str n = [''0123456789'' ! nat n]"
    using assms(1,2) by (simp add: str_digit)
  have each: "\<forall>i<length ?ms.
        ov_x (overlays ?mgr ! i) = left (?ms ! i) + 20 \<and>
        ov_y (overlays ?mgr ! i) = top_edge (?ms ! i) + 20 \<and>
        ov_id (overlays ?mgr ! i) = scr_next scr + i \<and>
        overlay_text (overlays ?mgr ! i) =
          (if n = 10 then ''0'' else [''0123456789'' ! nat n])"
    using shown by (simp add: nth_one_per_monitor overlay_text_def)
  have "?b \<noteq> [] \<longleftrightarrow> ?ms \<noteq> []"
    using length_one_per_monitor [of n "scr_next scr" ?ms] by (metis length_0_conv)
  then have tm: "timer ?mgr = (if ?ms = [] then None
                  else Some \<lparr>milliseconds = 1500, one_shot = True\<rparr>)"
    by simp
  have cleared: "overlays (fst (on_timer ?mgr ?scr1)) = []"
    by (simp add: on_timer_def)
  have gone: "fresh_ids scr \<longrightarrow>
      scr_open (snd (on_timer ?mgr ?scr1)) =
        scr_open scr @ filter (\<lambda>ov. ov_id ov \<in> scr_close_fails scr) (overlays ?mgr)"
    by (simp add: on_timer_def close_fresh_batch)
  have opened: "scr_open ?scr1 = scr_open scr @ overlays ?mgr" by simp
  from init len each opened tm cleared gone show ?thesis by blast
qed

theorem display_one_overlay_per_monitor_witness:
  "get_all scr_two = [monitor_1, monitor_2] \<and>
   (left monitor_1 + 20, top_edge monitor_1 + 20) \<notin> scr_create_fails scr_two \<and>
   (left monitor_2 + 20, top_edge monitor_2 + 20) \<notin> scr_create_fails scr_two \<and>
   fresh_ids scr_two \<and>
   map overlay_text (overlays (the (fst (manager_init 10 scr_two)))) = [''0'', ''0''] \<and>
   map overlay_text (overlays (the (fst (manager_init 7 scr_two)))) = [''7'', ''7''] \<and>
   map ov_x (overlays (the (fst (manager_init 10 scr_two)))) = [20, 1940] \<and>
   map ov_y (overlays (the (fst (manager_init 10 scr_two)))) = [20, 20] \<and>
   scr_open (snd (manager_init 10 scr_two)) = overlays (the (fst (manager_init 10 scr_two))) \<and>
   overlays (fst (on_timer (the (fst (manager_init 10 scr_two)))
                           (snd (manager_init 10 scr_two)))) = [] \<and>
   scr_open (snd (on_timer (the (fst (manager_init 10 scr_two)))
                           (snd (manager_init 10 scr_two)))) = []"
proof -
  have ms: "get_all scr_two = [monitor_1, monitor_2]" by (rule get_all_scr_two)
  have nf: "(left monitor_1 + 20, top_edge monitor_1 + 20) \<notin> scr_create_fails scr_two"
    "(left monitor_2 + 20, top_edge monitor_2 + 20) \<notin> scr_create_fails scr_two"
    by (simp_all add: scr_two_def)
  have h: "\<forall>m\<in>set (get_all scr_two).
             (left m + 20, top_edge m + 20) \<notin> scr_create_fails scr_two"
    using nf by (simp add: ms)
  have fr: "fresh_ids scr_two" by (simp add: fresh_ids_def scr_two_def)
  have "(1::int) \<le> 10" "(10::int) \<le> 10" by simp_all
  from display_one_overlay_per_monitor [OF this h]
  obtain mgr scr1 where init: "manager_init 10 scr_two = (Some mgr, scr1)"
    and opened: "scr_open scr1 = scr_open scr_two @ overlays mgr"
    and cleared: "overlays (fst (on_timer mgr scr1)) = []"
    and gone: "fresh_ids scr_two \<longrightarrow>
      scr_open (snd (on_timer mgr scr1)) =
        scr_open scr_two @
        filter (\<lambda>ov. ov_id ov \<in> scr_close_fails scr_two) (overlays mgr)"
    by blast
  have e: "scr_open scr_two = []" "scr_close_fails scr_two = {}"
    by (simp_all add: scr_two_def)
  from gone fr have g: "scr_open (snd (on_timer mgr scr1)) = []" by (simp add: e)
  have v10: "overlays (the (fst (manager_init 10 scr_two))) =
      [\<lparr>ov_id = 0, desktop_number = 10, ov_x = 20, ov_y = 20\<rparr>,
       \<lparr>ov_id = 1, desktop_number = 10, ov_x = 1940, ov_y = 20\<rparr>]"
    by (simp add: manager_init_def get_all_def enum_monitors_callback_def new_overlay_def
          Let_def scr_two_def)
  have v7: "overlays (the (fst (manager_init 7 scr_two))) =
      [\<lparr>ov_id = 0, desktop_number = 7, ov_x = 20, ov_y = 20\<rparr>,
       \<lparr>ov_id = 1, desktop_number = 7, ov_x = 1940, ov_y = 20\<rparr>]"
    by (simp add: manager_init_def get_all_def enum_monitors_callback_def new_overlay_def
          Let_def scr_two_def)
  have t10: "map overlay_text (overlays (the (fst (manager_init 10 scr_two)))) = [''0'', ''0'']"
    by (simp add: v10 overlay_text_def)
  have t7: "map overlay_text (overlays (the (fst (manager_init 7 scr_two)))) = [''7'', ''7'']"
    by (simp add: v7 overlay_text_def str_def digit_char_def)
  have x: "map ov_x (overlays (the (fst (manager_init 10 scr_two)))) = [20, 1940]"
    "map ov_y (overlays (the (fst (manager_init 10 scr_two)))) = [20, 20]"
    by (simp_all add: v10)
  from init opened cleared g e have
    "scr_open (snd (manager_init 10 scr_two)) = overlays (the (fst (manager_init 10 scr_two)))"
    "overlays (fst (on_timer (the (fst (manager_init 10 scr_two)))
                           (snd (manager_init 10 scr_two)))) = []"
    "scr_open (snd (on_timer (the (fst (manager_init 10 scr_two)))
                           (snd (manager_init 10 scr_two)))) = []"
    by simp_all
  with ms nf fr t10 t7 x show ?thesis by simp
qed

text \<open>
  C3. The specification has a failure to create the overlay of one monitor leave the
  overlays of the other monitors to be created. The loop of the constructor has no
  handler, so the first exception ends it. On \<open>scr_first_fails\<close> there are two monitors
  and the overlay of the first one fails, at (20, 20); that of the second one, at
  (1940, 20), would not fail. \<^verbatim>\<open>_show_desktop_overlay\<close> catches the exception and reports
  it, there is no manager, and no overlay is on the screen.
\<close>

theorem overlay_failure_stops_batch:
  "get_all scr_first_fails = [monitor_1, monitor_2] \<and>
   (left monitor_1 + 20, top_edge monitor_1 + 20) \<in> scr_create_fails scr_first_fails \<and>
   (left monitor_2 + 20, top_edge monitor_2 + 20) \<notin> scr_create_fails scr_first_fails \<and>
   fst (show_desktop_overlay 7 scr_first_fails) = False \<and>
   fst (snd (show_desktop_overlay 7 scr_first_fails)) = None \<and>
   scr_open (snd (snd (show_desktop_overlay 7 scr_first_fails))) = []"
  by (simp add: show_desktop_overlay_def manager_init_def get_all_def
        enum_monitors_callback_def new_overlay_def scr_first_fails_def scr_two_def
        monitor_1_def monitor_2_def)

text \<open>
  The same in general: the overlays of the monitors before the failing one have been
  shown, and the display ends without a manager, so without a timer.
\<close>

lemma show_desktop_overlay_fail:
  assumes "get_all scr = pre @ m # post"
    and "\<forall>p\<in>set pre. (left p + 20, top_edge p + 20) \<notin> scr_create_fails scr"
    and "(left m + 20, top_edge m + 20) \<in> scr_create_fails scr"
  shows "show_desktop_overlay n scr =
     (False, None,
      scr\<lparr>scr_open := scr_open scr @ one_per_monitor n (scr_next scr) pre,
          scr_next := scr_next scr + length pre\<rparr>)"
  using assms by (simp add: show_desktop_overlay_def manager_init_def create_overlays_fail)

text \<open>
  On \<open>scr_second_fails\<close> the overlay of the first monitor is shown and that of the second
  fails. The first overlay stays on the screen: no manager holds it and no timer will
  close it, against the description of the class, which closes its overlays by itself.
\<close>

lemma orphan_overlay_stays:
  "fst (snd (show_desktop_overlay 7 scr_second_fails)) = None \<and>
   scr_open (snd (snd (show_desktop_overlay 7 scr_second_fails))) =
     [\<lparr>ov_id = 0, desktop_number = 7, ov_x = 20, ov_y = 20\<rparr>]"
  by (simp add: show_desktop_overlay_def manager_init_def get_all_def
        enum_monitors_callback_def new_overlay_def Let_def scr_second_fails_def scr_two_def)

end
